theory Spec2Isabelle
  imports Main
begin

section \<open>Python string primitives used by \<^verbatim>\<open>manager.py\<close>\<close>

text \<open>
  \<^verbatim>\<open>s.lstrip(chars)\<close> and \<^verbatim>\<open>s.rstrip(chars)\<close> remove every leading (trailing) character
  that belongs to \<^verbatim>\<open>chars\<close>; the source only ever passes \<^verbatim>\<open>'/'\<close>.
\<close>

definition lstrip :: "string \<Rightarrow> string \<Rightarrow> string" where
  "lstrip s chars = dropWhile (\<lambda>c. c \<in> set chars) s"

definition rstrip :: "string \<Rightarrow> string \<Rightarrow> string" where
  "rstrip s chars = rev (dropWhile (\<lambda>c. c \<in> set chars) (rev s))"

text \<open>
  An f-string field \<^verbatim>\<open>{x}\<close> of an \<^verbatim>\<open>Optional[str]\<close>: the string itself, or the text
  \<^verbatim>\<open>None\<close>.
\<close>

definition format_field :: "string option \<Rightarrow> string" where
  "format_field x = (case x of None \<Rightarrow> ''None'' | Some s \<Rightarrow> s)"

section \<open>\<^verbatim>\<open>class URL(str)\<close>\<close>

type_synonym URL = string

text \<open>\<^verbatim>\<open>URL.__truediv__\<close>: \<^verbatim>\<open>URL(f"{self.rstrip('/')}/{other.lstrip('/')}")\<close>.\<close>

definition truediv :: "URL \<Rightarrow> string \<Rightarrow> URL" where
  "truediv self other = rstrip self ''/'' @ ''/'' @ lstrip other ''/''"

section \<open>\<^verbatim>\<open>class AuthManager(BaseModel)\<close>\<close>

record AuthManager =
  username :: "string option"
  token :: string
  base_url :: "string option"

text \<open>
  A keyword argument of the constructor is either left out or passed; what is passed for
  a string field is a string or \<^verbatim>\<open>None\<close>.
\<close>

datatype 'a arg = Omitted | Passed 'a

datatype construction_error = ValidationError

text \<open>
  The constructor that the model class derives from the three field declarations:
  \<^verbatim>\<open>username: Optional[str] = Field(None)\<close> and
  \<^verbatim>\<open>base_url: Optional[str] = Field("https://api.url")\<close> take their default when left out
  and accept \<^verbatim>\<open>None\<close>; \<^verbatim>\<open>token: str = Field(...)\<close> is required and must be a string.
  The declarations put no constraint on the length of any string.
\<close>

definition AuthManager_init ::
  "string option arg \<Rightarrow> string option arg \<Rightarrow> string option arg
     \<Rightarrow> construction_error + AuthManager" where
  "AuthManager_init username_arg token_arg base_url_arg =
     (let u = (case username_arg of Omitted \<Rightarrow> None | Passed v \<Rightarrow> v);
          b = (case base_url_arg of Omitted \<Rightarrow> Some ''https://api.url'' | Passed v \<Rightarrow> v)
      in case token_arg of
           Omitted \<Rightarrow> Inl ValidationError
         | Passed None \<Rightarrow> Inl ValidationError
         | Passed (Some t) \<Rightarrow> Inr \<lparr>username = u, token = t, base_url = b\<rparr>)"

text \<open>
  \<^verbatim>\<open>AuthManager.api_url\<close>: \<^verbatim>\<open>URL(f"{self.base_url}/{api_prefix}")\<close> with
  \<^verbatim>\<open>api_prefix = "api/v1"\<close>.
\<close>

definition api_prefix :: string where
  "api_prefix = ''api/v1''"

definition api_url :: "AuthManager \<Rightarrow> URL" where
  "api_url self = format_field (base_url self) @ ''/'' @ api_prefix"

text \<open>
  \<^verbatim>\<open>AuthManager.headers\<close>. The dictionary is kept as the list of its items in insertion
  order; \<open>agent\<close> is the string that \<^verbatim>\<open>user_agent.generate_user_agent()\<close> hands to this
  call (the property \<^verbatim>\<open>self.user_agent\<close>).
\<close>

definition headers :: "string \<Rightarrow> AuthManager \<Rightarrow> bool \<Rightarrow> (string \<times> string) list" where
  "headers agent self bearer =
     [(''Content-Type'', ''application/json''),
      (''Accept'', ''application/json''),
      (''User-Agent'', agent)]
     @ (if bearer then [(''Authorization'', ''Bearer '' @ token self)] else [])"

section \<open>\<^verbatim>\<open>class RequestManager(AuthManager)\<close>\<close>

text \<open>
  \<^verbatim>\<open>RequestManager.__init__\<close> hands the three fields of \<open>auth\<close> to the constructor of
  the base class.
\<close>

definition RequestManager_init :: "AuthManager \<Rightarrow> construction_error + AuthManager" where
  "RequestManager_init auth =
     AuthManager_init (Passed (username auth)) (Passed (Some (token auth)))
       (Passed (base_url auth))"

text \<open>
  The exceptions that can leave \<^verbatim>\<open>request\<close>. The source catches none and raises none
  of its own: each comes from the libraries or from the interpreter.
\<close>

datatype exception =
    ValueError
  | TypeError
  | ClientConnectionError
  | ClientResponseError
  | ContentTypeError
  | JSONDecodeError
  | OtherException string

text \<open>
  \<^verbatim>\<open>aiohttp.BasicAuth(login, password)\<close>, the call of line 74. The constructor of the
  library refuses a login that contains a colon with \<^verbatim>\<open>ValueError\<close>; its two checks for
  \<^verbatim>\<open>None\<close> cannot fire, since line 74 calls it with two non-empty strings. An instance
  is a named tuple, so \<^verbatim>\<open>bool(auth)\<close> is true of every instance and false of \<^verbatim>\<open>None\<close>.
\<close>

datatype BasicAuth = BasicAuth (login: string) (password: string)

definition BasicAuth_new :: "string \<Rightarrow> string \<Rightarrow> exception + BasicAuth" where
  "BasicAuth_new login_arg password_arg =
     (if CHR '':'' \<in> set login_arg then Inl ValueError
      else Inr (BasicAuth login_arg password_arg))"

definition bool_auth :: "BasicAuth option \<Rightarrow> bool" where
  "bool_auth auth = (case auth of None \<Rightarrow> False | Some a \<Rightarrow> True)"

text \<open>
  What \<^verbatim>\<open>getattr(session, name, session.get)\<close> can yield: one of the verb methods of the
  session, or some other attribute of the object.
\<close>

datatype http_verb = GET | POST | PUT | PATCH | DELETE | HEAD | OPTIONS

datatype requester = VerbMethod http_verb | OtherAttribute string

definition getattr :: "(string \<rightharpoonup> 'a) \<Rightarrow> string \<Rightarrow> 'a \<Rightarrow> 'a" where
  "getattr obj name fallback = (case obj name of Some v \<Rightarrow> v | None \<Rightarrow> fallback)"

text \<open>
  The call \<^verbatim>\<open>requester(url, headers=headers, params=params)\<close> on a session opened with
  \<^verbatim>\<open>ClientSession(auth=auth)\<close>.
\<close>

record http_call =
  call_requester :: requester
  call_url :: URL
  call_headers :: "(string \<times> string) list"
  call_auth :: "BasicAuth option"
  call_params :: "(string \<times> string) list option"

text \<open>
  What the source takes from outside is a parameter of the model.
  \<open>generate_user_agent\<close> is the string the \<^verbatim>\<open>user_agent\<close> package generates;
  \<open>str_lower\<close> is the built-in \<^verbatim>\<open>str.lower\<close>, which folds the case of every cased
  character of Unicode; \<open>session_attrs\<close> is the attribute table of the session object
  (\<^verbatim>\<open>session.get\<close> itself is the \<open>GET\<close> method); \<open>perform\<close> opens the session with the
  credentials, invokes the requester and closes the session again, in a world \<open>'w\<close> that
  it may change, and yields the response or the exception raised on the way;
  \<open>json\<close> is \<^verbatim>\<open>response.json()\<close>, the decoded body or the exception it raises.
\<close>

record ('w, 'r, 'j) libraries =
  generate_user_agent :: string
  str_lower :: "string \<Rightarrow> string"
  session_attrs :: "string \<rightharpoonup> requester"
  perform :: "http_call \<Rightarrow> 'w \<Rightarrow> (exception + 'r) \<times> 'w"
  json :: "'r \<Rightarrow> exception + 'j"

text \<open>
  Line 74 of \<^verbatim>\<open>request\<close>:
  \<^verbatim>\<open>BasicAuth(self.username, self.token) if self.username and self.token else None\<close>.
  \<^verbatim>\<open>None\<close> and the empty string are the false values of an optional string; the
  constructor is only called when both strings are non-empty, and its exception leaves
  \<^verbatim>\<open>request\<close>.
\<close>

definition request_auth :: "AuthManager \<Rightarrow> exception + BasicAuth option" where
  "request_auth self =
     (case username self of
        None \<Rightarrow> Inr None
      | Some u \<Rightarrow>
          if u \<noteq> [] \<and> token self \<noteq> []
          then (case BasicAuth_new u (token self) of Inl e \<Rightarrow> Inl e | Inr a \<Rightarrow> Inr (Some a))
          else Inr None)"

text \<open>
  Lines 73 to 78 of \<^verbatim>\<open>request\<close>: everything computed before the network is used, or
  the exception of line 74.
\<close>

definition request_call ::
  "('w, 'r, 'j) libraries \<Rightarrow> AuthManager \<Rightarrow> string \<Rightarrow> string
     \<Rightarrow> (string \<times> string) list option \<Rightarrow> exception + http_call" where
  "request_call lib self endpoint method params =
     (let url = truediv (api_url self) (lstrip endpoint ''/'')
      in case request_auth self of
           Inl e \<Rightarrow> Inl e
         | Inr auth \<Rightarrow>
             (let hdrs = headers (generate_user_agent lib) self (\<not> bool_auth auth);
                  requester = getattr (session_attrs lib) (str_lower lib method) (VerbMethod GET)
              in Inr \<lparr>call_requester = requester, call_url = url, call_headers = hdrs,
                      call_auth = auth, call_params = params\<rparr>))"

text \<open>
  \<^verbatim>\<open>RequestManager.request\<close>. The result is the decoded body or the exception that
  left the method, together with the manager and the world after the call. The source has
  no \<^verbatim>\<open>try\<close>, no loop and no assignment to \<^verbatim>\<open>self\<close>.
\<close>

definition request ::
  "('w, 'r, 'j) libraries \<Rightarrow> AuthManager \<Rightarrow> string \<Rightarrow> string
     \<Rightarrow> (string \<times> string) list option \<Rightarrow> 'w \<Rightarrow> (exception + 'j) \<times> AuthManager \<times> 'w" where
  "request lib self endpoint method params w =
     (case request_call lib self endpoint method params of
        Inl e \<Rightarrow> (Inl e, self, w)
      | Inr c \<Rightarrow>
          (case perform lib c w of
             (Inl e, w') \<Rightarrow> (Inl e, self, w')
           | (Inr response, w') \<Rightarrow> (json lib response, self, w')))"

section \<open>Concrete libraries for the examples\<close>

text \<open>What \<^verbatim>\<open>str.lower\<close> gives on ASCII text, the only text the examples pass to it.\<close>

definition ascii_lower_char :: "char \<Rightarrow> char" where
  "ascii_lower_char c =
     (case map_of (zip ''ABCDEFGHIJKLMNOPQRSTUVWXYZ'' ''abcdefghijklmnopqrstuvwxyz'') c of
        Some d \<Rightarrow> d
      | None \<Rightarrow> c)"

definition ascii_lower :: "string \<Rightarrow> string" where
  "ascii_lower s = map ascii_lower_char s"

text \<open>
  Attributes of an \<^verbatim>\<open>aiohttp.ClientSession\<close>: the seven verb methods, and some of the
  attributes that are no verbs. \<^verbatim>\<open>__aenter__\<close> and \<^verbatim>\<open>__aexit__\<close> are the ones the
  \<^verbatim>\<open>async with\<close> statement of \<^verbatim>\<open>request\<close> itself relies on, and \<^verbatim>\<open>__class__\<close> is an
  attribute of every Python object.
\<close>

definition ClientSession_attrs :: "string \<rightharpoonup> requester" where
  "ClientSession_attrs = map_of
     [(''get'', VerbMethod GET), (''post'', VerbMethod POST), (''put'', VerbMethod PUT),
      (''patch'', VerbMethod PATCH), (''delete'', VerbMethod DELETE),
      (''head'', VerbMethod HEAD), (''options'', VerbMethod OPTIONS),
      (''request'', OtherAttribute ''request''), (''close'', OtherAttribute ''close''),
      (''closed'', OtherAttribute ''closed''), (''__aenter__'', OtherAttribute ''__aenter__''),
      (''__aexit__'', OtherAttribute ''__aexit__''),
      (''__class__'', OtherAttribute ''__class__'')]"

text \<open>
  Test doubles of the transport. The world is the list of the calls that went out, a
  response is a status and a body, and a decoded body is kept as text. Invoking an
  attribute of the table that is no verb with \<^verbatim>\<open>(url, headers=..., params=...)\<close> raises
  \<^verbatim>\<open>TypeError\<close> and sends nothing; a verb sends the call and gets what \<open>respond\<close> says.
\<close>

type_synonym mock_libraries = "(http_call list, nat \<times> string, string) libraries"

definition mock_lib ::
  "(http_call \<Rightarrow> http_call list \<Rightarrow> exception + nat \<times> string)
     \<Rightarrow> (nat \<times> string \<Rightarrow> exception + string) \<Rightarrow> mock_libraries" where
  "mock_lib respond decode =
     \<lparr>generate_user_agent = ''Mozilla/5.0'', str_lower = ascii_lower,
      session_attrs = ClientSession_attrs,
      perform = (\<lambda>c w. case call_requester c of
                          OtherAttribute a \<Rightarrow> (Inl TypeError, w)
                        | VerbMethod v \<Rightarrow> (respond c w, w @ [c])),
      json = decode\<rparr>"

text \<open>A transport that answers every call with status 200 and a JSON body.\<close>

definition echo_lib :: mock_libraries where
  "echo_lib = mock_lib (\<lambda>c w. Inr (200, ''[1, 2]'')) (\<lambda>r. Inr (snd r))"

text \<open>A transport whose first attempt fails and whose later attempts would succeed.\<close>

definition flaky_lib :: mock_libraries where
  "flaky_lib =
     mock_lib (\<lambda>c w. if w = [] then Inl ClientConnectionError else Inr (200, ''[1, 2]''))
       (\<lambda>r. Inr (snd r))"

text \<open>A transport that answers with a body that is no JSON.\<close>

definition garbled_lib :: mock_libraries where
  "garbled_lib = mock_lib (\<lambda>c w. Inr (200, ''<html>'')) (\<lambda>r. Inl JSONDecodeError)"

text \<open>A transport that answers with status 404 and a JSON body, and raises nothing.\<close>

definition not_found_lib :: mock_libraries where
  "not_found_lib = mock_lib (\<lambda>c w. Inr (404, ''[]'')) (\<lambda>r. Inr (snd r))"

definition alice :: AuthManager where
  "alice = \<lparr>username = Some ''alice'', token = ''T'', base_url = Some ''https://api.url''\<rparr>"

definition anonymous :: AuthManager where
  "anonymous = \<lparr>username = None, token = ''T'', base_url = Some ''https://api.url''\<rparr>"

definition slashed :: AuthManager where
  "slashed = \<lparr>username = None, token = ''T'', base_url = Some ''https://api.url/''\<rparr>"

definition colon :: AuthManager where
  "colon = \<lparr>username = Some ''a:b'', token = ''T'', base_url = Some ''https://api.url''\<rparr>"

text \<open>The calls that \<open>alice\<close> and \<open>anonymous\<close> make for \<^verbatim>\<open>request("users/1")\<close>.\<close>

definition alice_call :: http_call where
  "alice_call =
     \<lparr>call_requester = VerbMethod GET, call_url = ''https://api.url/api/v1/users/1'',
      call_headers = [(''Content-Type'', ''application/json''),
                      (''Accept'', ''application/json''), (''User-Agent'', ''Mozilla/5.0'')],
      call_auth = Some (BasicAuth ''alice'' ''T''), call_params = None\<rparr>"

definition anonymous_call :: http_call where
  "anonymous_call =
     \<lparr>call_requester = VerbMethod GET, call_url = ''https://api.url/api/v1/users/1'',
      call_headers = [(''Content-Type'', ''application/json''),
                      (''Accept'', ''application/json''), (''User-Agent'', ''Mozilla/5.0''),
                      (''Authorization'', ''Bearer T'')],
      call_auth = None, call_params = None\<rparr>"

section \<open>Lemmas on stripping\<close>

lemma lstrip_Nil [simp]: "lstrip [] cs = []"
  by (simp add: lstrip_def)

lemma rstrip_Nil [simp]: "rstrip [] cs = []"
  by (simp add: rstrip_def)

lemma lstrip_eq_Nil_iff: "lstrip s cs = [] \<longleftrightarrow> set s \<subseteq> set cs"
  by (auto simp: lstrip_def dropWhile_eq_Nil_conv)

lemma rstrip_eq_Nil_iff: "rstrip s cs = [] \<longleftrightarrow> set s \<subseteq> set cs"
  by (auto simp: rstrip_def dropWhile_eq_Nil_conv)

lemma lstrip_append:
  "lstrip (x @ y) cs = (if set x \<subseteq> set cs then lstrip y cs else lstrip x cs @ y)"
proof (cases "set x \<subseteq> set cs")
  case True
  then have "dropWhile (\<lambda>c. c \<in> set cs) (x @ y) = dropWhile (\<lambda>c. c \<in> set cs) y"
    by (intro dropWhile_append2) auto
  with True show ?thesis by (simp add: lstrip_def)
next
  case False
  then obtain c where "c \<in> set x" "c \<notin> set cs" by auto
  then have "dropWhile (\<lambda>c. c \<in> set cs) (x @ y) = dropWhile (\<lambda>c. c \<in> set cs) x @ y"
    by (intro dropWhile_append1) auto
  with False show ?thesis by (simp add: lstrip_def)
qed

lemma rstrip_append:
  "rstrip (x @ y) cs = (if set y \<subseteq> set cs then rstrip x cs else x @ rstrip y cs)"
proof (cases "set y \<subseteq> set cs")
  case True
  then have "dropWhile (\<lambda>c. c \<in> set cs) (rev y @ rev x) = dropWhile (\<lambda>c. c \<in> set cs) (rev x)"
    by (intro dropWhile_append2) auto
  with True show ?thesis by (simp add: rstrip_def)
next
  case False
  then obtain c where "c \<in> set (rev y)" "c \<notin> set cs" by auto
  then have "dropWhile (\<lambda>c. c \<in> set cs) (rev y @ rev x)
      = dropWhile (\<lambda>c. c \<in> set cs) (rev y) @ rev x"
    by (intro dropWhile_append1) auto
  with False show ?thesis by (simp add: rstrip_def)
qed

lemma lstrip_Cons:
  "lstrip (c # s) cs = (if c \<in> set cs then lstrip s cs else c # s)"
  by (simp add: lstrip_def)

lemma rstrip_Cons:
  "rstrip (c # s) cs =
     (if set s \<subseteq> set cs then (if c \<in> set cs then [] else [c]) else c # rstrip s cs)"
  using rstrip_append [of "[c]" s cs] by (simp add: rstrip_def)

lemma lstrip_idem [simp]: "lstrip (lstrip s cs) cs = lstrip s cs"
  by (induction s) (simp_all add: lstrip_Cons)

lemma set_rstrip_subset: "set (rstrip s cs) \<subseteq> set s"
  unfolding rstrip_def using set_dropWhileD by fastforce

lemma rstrip_idem [simp]: "rstrip (rstrip s cs) cs = rstrip s cs"
proof (induction s)
  case Nil
  show ?case by simp
next
  case (Cons c s)
  show ?case
  proof (cases "set s \<subseteq> set cs")
    case True
    then show ?thesis by (simp add: rstrip_Cons)
  next
    case False
    then have "\<not> set (rstrip s cs) \<subseteq> set cs"
      using rstrip_eq_Nil_iff [of "rstrip s cs" cs] rstrip_eq_Nil_iff [of s cs] Cons.IH by auto
    with False Cons.IH show ?thesis by (simp add: rstrip_Cons)
  qed
qed

lemma rstrip_lstrip_commute: "rstrip (lstrip s cs) cs = lstrip (rstrip s cs) cs"
proof (induction s)
  case Nil
  show ?case by simp
next
  case (Cons c s)
  show ?case
  proof (cases "c \<in> set cs")
    case inside: True
    show ?thesis
    proof (cases "set s \<subseteq> set cs")
      case True
      then have "lstrip s cs = []" by (simp add: lstrip_eq_Nil_iff)
      with inside True show ?thesis by (simp add: lstrip_Cons rstrip_Cons)
    next
      case False
      with inside Cons.IH show ?thesis by (simp add: lstrip_Cons rstrip_Cons)
    qed
  next
    case False
    then show ?thesis by (simp add: lstrip_Cons rstrip_Cons)
  qed
qed

lemma lstrip_replicate_append:
  "seg = [] \<or> hd seg \<noteq> c \<Longrightarrow> lstrip (replicate j c @ seg) [c] = seg"
  by (cases seg) (auto simp: lstrip_append lstrip_Cons lstrip_eq_Nil_iff)

lemma rstrip_append_replicate:
  "base = [] \<or> last base \<noteq> c \<Longrightarrow> rstrip (base @ replicate k c) [c] = base"
proof -
  assume a: "base = [] \<or> last base \<noteq> c"
  have "rstrip base [c] = base"
  proof (cases base rule: rev_cases)
    case Nil
    then show ?thesis by simp
  next
    case (snoc ys y)
    with a have "y \<noteq> c" by simp
    with snoc show ?thesis by (simp add: rstrip_def)
  qed
  then show ?thesis by (auto simp: rstrip_append rstrip_eq_Nil_iff)
qed

lemma truediv_assoc_aux:
  "truediv (truediv root a) b = truediv root (truediv a b)"
proof (cases "set a \<subseteq> {CHR ''/''}")
  case True
  then have "lstrip a ''/'' = []" "rstrip a ''/'' = []"
    by (simp_all add: lstrip_eq_Nil_iff rstrip_eq_Nil_iff)
  then show ?thesis
    by (simp add: truediv_def rstrip_append lstrip_Cons)
next
  case False
  then have l: "\<not> set (lstrip a ''/'') \<subseteq> {CHR ''/''}"
    using lstrip_eq_Nil_iff [of "lstrip a ''/''" "''/''"] lstrip_eq_Nil_iff [of a "''/''"]
    by simp
  from False have r: "\<not> set (rstrip a ''/'') \<subseteq> {CHR ''/''}"
    using rstrip_eq_Nil_iff [of "rstrip a ''/''" "''/''"] rstrip_eq_Nil_iff [of a "''/''"]
    by simp
  have "rstrip (rstrip root ''/'' @ ''/'' @ lstrip a ''/'') ''/''
      = rstrip root ''/'' @ ''/'' @ rstrip (lstrip a ''/'') ''/''"
    using l by (simp add: rstrip_append rstrip_Cons)
  moreover have "lstrip (rstrip a ''/'' @ ''/'' @ lstrip b ''/'') ''/''
      = lstrip (rstrip a ''/'') ''/'' @ ''/'' @ lstrip b ''/''"
    using r by (simp add: lstrip_append)
  ultimately show ?thesis
    by (simp add: truediv_def rstrip_lstrip_commute)
qed

lemma rstrip_decomp: "\<exists>n. s = rstrip s [c] @ replicate n c"
proof (induction s)
  case Nil
  show ?case by simp
next
  case (Cons x s)
  then obtain n where n: "s = rstrip s [c] @ replicate n c" by blast
  show ?case
  proof (cases "set s \<subseteq> {c}")
    case True
    then have s: "s = replicate (length s) c"
      by (metis replicate_length_same singletonD subsetD)
    show ?thesis
    proof (cases "x = c")
      case True
      with \<open>set s \<subseteq> {c}\<close> have "rstrip (x # s) [c] = []"
        by (simp add: rstrip_Cons)
      moreover have "x # s = replicate (Suc (length s)) c"
        using s True by simp
      ultimately show ?thesis by (metis append_Nil)
    next
      case False
      with \<open>set s \<subseteq> {c}\<close> have "rstrip (x # s) [c] = [x]"
        by (simp add: rstrip_Cons)
      then show ?thesis using s by (metis append_Cons append_Nil)
    qed
  next
    case False
    then have "rstrip (x # s) [c] = x # rstrip s [c]"
      by (simp add: rstrip_Cons)
    then show ?thesis using n by (metis append_Cons)
  qed
qed

lemma rstrip_no_trailing: "rstrip s [c] = [] \<or> last (rstrip s [c]) \<noteq> c"
proof -
  have "dropWhile (\<lambda>x. x = c) (rev s) = [] \<or> hd (dropWhile (\<lambda>x. x = c) (rev s)) \<noteq> c"
    using hd_dropWhile [of "\<lambda>x. x = c" "rev s"] by blast
  then show ?thesis
    by (auto simp: rstrip_def last_rev)
qed

lemma lstrip_decomp: "\<exists>n. s = replicate n c @ lstrip s [c]"
proof (induction s)
  case Nil
  show ?case by simp
next
  case (Cons x s)
  then obtain n where n: "s = replicate n c @ lstrip s [c]" by blast
  show ?case
  proof (cases "x = c")
    case True
    then have "x # s = replicate (Suc n) c @ lstrip (x # s) [c]"
      using n by (simp add: lstrip_Cons)
    then show ?thesis by blast
  next
    case False
    then have "x # s = replicate 0 c @ lstrip (x # s) [c]"
      by (simp add: lstrip_Cons)
    then show ?thesis by blast
  qed
qed

lemma lstrip_no_leading: "lstrip s [c] = [] \<or> hd (lstrip s [c]) \<noteq> c"
  using hd_dropWhile [of "\<lambda>x. x = c" s] by (auto simp: lstrip_def)

lemma truediv_literal: "truediv (truediv root ''a'') ''b'' = truediv root ''a/b''"
  by (simp add: truediv_def rstrip_append lstrip_Cons rstrip_Cons)

lemma truediv_segments:
  assumes a: "a = [] \<or> last a \<noteq> CHR ''/''" and b: "b = [] \<or> hd b \<noteq> CHR ''/''"
  shows "truediv (truediv root a) b = truediv root (a @ ''/'' @ b)"
proof (cases "a = []")
  case True
  then show ?thesis
    by (simp add: truediv_def rstrip_append lstrip_Cons)
next
  case False
  have ra: "rstrip a ''/'' = a"
    using rstrip_append_replicate [of a "CHR ''/''" 0] a by simp
  have lb: "lstrip b ''/'' = b"
    using lstrip_replicate_append [of b "CHR ''/''" 0] b by simp
  have "truediv a b = a @ ''/'' @ b"
    by (simp add: truediv_def ra lb)
  with truediv_assoc_aux [of root a b] show ?thesis by simp
qed

lemma truediv_slashes:
  assumes "base = [] \<or> last base \<noteq> CHR ''/''" and "seg = [] \<or> hd seg \<noteq> CHR ''/''"
  shows "truediv (base @ replicate k (CHR ''/'')) (replicate j (CHR ''/'') @ seg)
      = base @ ''/'' @ seg"
  using assms by (simp add: truediv_def lstrip_replicate_append rstrip_append_replicate)

section \<open>Path joining\<close>

text \<open>
  C7. \<^verbatim>\<open>URL.__truediv__\<close> removes every trailing \<open>/\<close> of the left operand and every
  leading \<open>/\<close> of the right operand and puts exactly one \<open>/\<close> between what is left.
  Joining is associative, \<open>root / "a" / "b"\<close> is \<open>root / "a/b"\<close> (for the literal
  segments, and for any segment \<open>a\<close> without a trailing and any segment \<open>b\<close> without a
  leading slash), and a base followed by any number of slashes (0 to 3 in particular)
  joined to a segment preceded by any number of slashes is the base, one slash, and the
  segment.
\<close>

theorem truediv_join:
  "truediv root a = rstrip root ''/'' @ ''/'' @ lstrip a ''/''
   \<and> (\<exists>n. root = rstrip root ''/'' @ replicate n (CHR ''/''))
   \<and> (rstrip root ''/'' = [] \<or> last (rstrip root ''/'') \<noteq> CHR ''/'')
   \<and> (\<exists>n. a = replicate n (CHR ''/'') @ lstrip a ''/'')
   \<and> (lstrip a ''/'' = [] \<or> hd (lstrip a ''/'') \<noteq> CHR ''/'')
   \<and> truediv (truediv root a) b = truediv root (truediv a b)
   \<and> truediv (truediv root ''a'') ''b'' = truediv root ''a/b''
   \<and> ((a = [] \<or> last a \<noteq> CHR ''/'') \<and> (b = [] \<or> hd b \<noteq> CHR ''/'')
        \<longrightarrow> truediv (truediv root a) b = truediv root (a @ ''/'' @ b))
   \<and> ((base = [] \<or> last base \<noteq> CHR ''/'') \<and> (seg = [] \<or> hd seg \<noteq> CHR ''/'')
        \<longrightarrow> truediv (base @ replicate k (CHR ''/'')) (replicate j (CHR ''/'') @ seg)
            = base @ ''/'' @ seg)"
proof (intro conjI impI)
  show "truediv root a = rstrip root ''/'' @ ''/'' @ lstrip a ''/''"
    by (simp add: truediv_def)
  show "\<exists>n. root = rstrip root ''/'' @ replicate n (CHR ''/'')"
    by (rule rstrip_decomp)
  show "rstrip root ''/'' = [] \<or> last (rstrip root ''/'') \<noteq> CHR ''/''"
    by (rule rstrip_no_trailing)
  show "\<exists>n. a = replicate n (CHR ''/'') @ lstrip a ''/''"
    by (rule lstrip_decomp)
  show "lstrip a ''/'' = [] \<or> hd (lstrip a ''/'') \<noteq> CHR ''/''"
    by (rule lstrip_no_leading)
  show "truediv (truediv root a) b = truediv root (truediv a b)"
    by (rule truediv_assoc_aux)
  show "truediv (truediv root ''a'') ''b'' = truediv root ''a/b''"
    by (rule truediv_literal)
  show "truediv (truediv root a) b = truediv root (a @ ''/'' @ b)"
    if "(a = [] \<or> last a \<noteq> CHR ''/'') \<and> (b = [] \<or> hd b \<noteq> CHR ''/'')"
    using that by (simp add: truediv_segments)
  show "truediv (base @ replicate k (CHR ''/'')) (replicate j (CHR ''/'') @ seg)
      = base @ ''/'' @ seg"
    if "(base = [] \<or> last base \<noteq> CHR ''/'') \<and> (seg = [] \<or> hd seg \<noteq> CHR ''/'')"
    using that by (simp add: truediv_slashes)
qed

theorem truediv_join_witness:
  "truediv ''https://api.url///'' ''//users/1'' = ''https://api.url/users/1''
   \<and> truediv (truediv ''https://api.url/'' ''users'') ''1''
       = truediv ''https://api.url/'' ''users/1''"
  using truediv_join [where base = "''https://api.url''" and seg = "''users/1''"
      and k = "Suc (Suc (Suc 0))" and j = "Suc (Suc 0)"
      and root = "''https://api.url/''" and a = "''users''" and b = "''1''"]
  by (simp add: truediv_def rstrip_def lstrip_def)

section \<open>The API root\<close>

lemma api_url_unstripped:
  "api_url self = format_field (base_url self) @ ''/api/v1''"
  by (simp add: api_url_def api_prefix_def)

lemma api_url_joined:
  assumes "base_url self = Some b" and "b = [] \<or> last b \<noteq> CHR ''/''"
  shows "api_url self = truediv b api_prefix"
proof -
  have "rstrip b ''/'' = b"
    using rstrip_append_replicate [of b "CHR ''/''" 0] assms(2) by simp
  then show ?thesis
    using assms(1)
    by (simp add: api_url_def truediv_def format_field_def api_prefix_def lstrip_Cons)
qed

text \<open>
  C1. \<^verbatim>\<open>api_url\<close> formats \<^verbatim>\<open>base_url\<close> as it is, with no \<^verbatim>\<open>rstrip\<close>: for the manager
  built with \<^verbatim>\<open>base_url="https://api.url/"\<close> and \<^verbatim>\<open>token="T"\<close> the root is
  \<^verbatim>\<open>https://api.url//api/v1\<close>, with two slashes before the prefix, where the join of
  \<^verbatim>\<open>URL.__truediv__\<close> gives \<^verbatim>\<open>https://api.url/api/v1\<close>.
\<close>

theorem api_url_trailing_slash:
  "AuthManager_init Omitted (Passed (Some ''T'')) (Passed (Some ''https://api.url/''))
     = Inr slashed
   \<and> api_url slashed = ''https://api.url//api/v1''
   \<and> truediv ''https://api.url/'' api_prefix = ''https://api.url/api/v1''"
  by (simp add: AuthManager_init_def slashed_def api_url_def api_prefix_def format_field_def
      truediv_def rstrip_def lstrip_def)

section \<open>The request\<close>

lemma request_call_unfold:
  "request_call lib self endpoint meth params =
     (case request_auth self of
        Inl e \<Rightarrow> Inl e
      | Inr auth \<Rightarrow>
          Inr \<lparr>call_requester = getattr (session_attrs lib) (str_lower lib meth) (VerbMethod GET),
               call_url = truediv (api_url self) (lstrip endpoint ''/''),
               call_headers = headers (generate_user_agent lib) self (\<not> bool_auth auth),
               call_auth = auth, call_params = params\<rparr>)"
  by (simp add: request_call_def Let_def split: sum.splits)

lemma request_sends:
  assumes "request_call lib self endpoint meth params = Inr c"
  shows "request lib self endpoint meth params w =
     (case perform lib c w of
        (Inl e, w') \<Rightarrow> (Inl e, self, w')
      | (Inr response, w') \<Rightarrow> (json lib response, self, w'))"
  using assms by (simp add: request_def)

lemma request_raises:
  assumes "request_call lib self endpoint meth params = Inl e"
  shows "request lib self endpoint meth params w = (Inl e, self, w)"
  using assms by (simp add: request_def)

lemma call_url_request_call:
  assumes "request_call lib self endpoint meth params = Inr c"
  shows "call_url c = truediv (api_url self) (lstrip endpoint ''/'')"
  using assms by (auto simp: request_call_unfold split: sum.splits)

lemma call_requester_request_call:
  assumes "request_call lib self endpoint meth params = Inr c"
  shows "call_requester c = getattr (session_attrs lib) (str_lower lib meth) (VerbMethod GET)"
  using assms by (auto simp: request_call_unfold split: sum.splits)

lemma request_url_joined:
  assumes "base_url self = Some b" and "b = [] \<or> last b \<noteq> CHR ''/''"
    and "request_call lib self endpoint meth params = Inr c"
  shows "call_url c = b @ ''/api/v1/'' @ lstrip endpoint ''/''"
proof -
  have "rstrip (b @ ''/api/v1'') ''/'' = b @ ''/api/v1''"
    by (simp add: rstrip_append rstrip_Cons)
  then show ?thesis
    using assms(1) call_url_request_call [OF assms(3)]
    by (simp add: api_url_unstripped format_field_def truediv_def)
qed

text \<open>
  C3. The target of \<^verbatim>\<open>request\<close> is \<^verbatim>\<open>self.api_url / endpoint.lstrip('/')\<close>. With
  \<^verbatim>\<open>base_url="https://api.url/"\<close> the call \<^verbatim>\<open>request("users/1")\<close> goes to
  \<^verbatim>\<open>https://api.url//api/v1/users/1\<close>: the doubled slash of \<^verbatim>\<open>api_url\<close> stays in the
  target.
\<close>

theorem request_url_trailing_slash:
  "(\<exists>c. request_call echo_lib slashed ''users/1'' ''GET'' None = Inr c
      \<and> call_url c = truediv (api_url slashed) (lstrip ''users/1'' ''/'')
      \<and> call_url c = ''https://api.url//api/v1/users/1'')
   \<and> map call_url (snd (snd (request echo_lib slashed ''users/1'' ''GET'' None [])))
     = [''https://api.url//api/v1/users/1'']"
  by (simp add: request_def request_call_def request_auth_def Let_def echo_lib_def mock_lib_def
      getattr_def ClientSession_attrs_def ascii_lower_def ascii_lower_char_def
      slashed_def api_url_def api_prefix_def format_field_def truediv_def rstrip_def lstrip_def)

section \<open>Authentication mode\<close>

lemma request_auth_basic:
  assumes "username self = Some u" and "u \<noteq> []" and "token self \<noteq> []"
    and "CHR '':'' \<notin> set u"
  shows "request_auth self = Inr (Some (BasicAuth u (token self)))"
  using assms by (simp add: request_auth_def BasicAuth_new_def)

lemma request_auth_colon:
  assumes "username self = Some u" and "u \<noteq> []" and "token self \<noteq> []"
    and "CHR '':'' \<in> set u"
  shows "request_auth self = Inl ValueError"
  using assms by (simp add: request_auth_def BasicAuth_new_def)

lemma request_auth_bearer:
  assumes "\<not> (\<exists>v. username self = Some v \<and> v \<noteq> [] \<and> token self \<noteq> [])"
  shows "request_auth self = Inr None"
  using assms by (auto simp: request_auth_def split: option.splits)

lemma headers_Authorization_key:
  "''Authorization'' \<in> fst ` set (headers agent self bearer) \<longleftrightarrow> bearer"
  by (cases bearer) (simp_all add: headers_def)

lemma headers_Authorization_value:
  "map_of (headers agent self bearer) ''Authorization''
     = (if bearer then Some (''Bearer '' @ token self) else None)"
  by (simp add: headers_def)

lemma request_call_one_mechanism:
  assumes "request_call lib self endpoint meth params = Inr c"
  shows "(call_auth c \<noteq> None) \<noteq> (''Authorization'' \<in> fst ` set (call_headers c))"
proof -
  from assms obtain auth where a: "request_auth self = Inr auth"
    and c: "c = \<lparr>call_requester = getattr (session_attrs lib) (str_lower lib meth) (VerbMethod GET),
               call_url = truediv (api_url self) (lstrip endpoint ''/''),
               call_headers = headers (generate_user_agent lib) self (\<not> bool_auth auth),
               call_auth = auth, call_params = params\<rparr>"
    by (auto simp: request_call_unfold split: sum.splits)
  show ?thesis
    by (cases auth) (simp_all add: c headers_Authorization_key bool_auth_def)
qed

text \<open>
  C2, as the code has it. When \<^verbatim>\<open>username\<close> and \<^verbatim>\<open>token\<close> are both non-empty and the
  username has no colon, the call that \<^verbatim>\<open>request\<close> hands to the session carries
  \<^verbatim>\<open>BasicAuth(username, token)\<close> and its headers have no \<^verbatim>\<open>Authorization\<close> key. When
  both are non-empty and the username has a colon, \<^verbatim>\<open>request\<close> raises \<^verbatim>\<open>ValueError\<close>
  and the world is untouched. Otherwise the call carries no basic authentication and its
  headers have \<^verbatim>\<open>Authorization: Bearer <token>\<close>. Every call that is built has exactly
  one of the two.
\<close>

theorem request_auth_mode:
  "(username self = Some u \<and> u \<noteq> [] \<and> token self \<noteq> [] \<and> CHR '':'' \<notin> set u \<longrightarrow>
      (\<exists>c. request_call lib self endpoint meth params = Inr c
         \<and> call_auth c = Some (BasicAuth u (token self))
         \<and> ''Authorization'' \<notin> fst ` set (call_headers c)
         \<and> request lib self endpoint meth params w =
             (case perform lib c w of
                (Inl e, w') \<Rightarrow> (Inl e, self, w')
              | (Inr response, w') \<Rightarrow> (json lib response, self, w'))))
   \<and> (username self = Some u \<and> u \<noteq> [] \<and> token self \<noteq> [] \<and> CHR '':'' \<in> set u \<longrightarrow>
      request_call lib self endpoint meth params = Inl ValueError
      \<and> request lib self endpoint meth params w = (Inl ValueError, self, w))
   \<and> (\<not> (\<exists>v. username self = Some v \<and> v \<noteq> [] \<and> token self \<noteq> []) \<longrightarrow>
      (\<exists>c. request_call lib self endpoint meth params = Inr c
         \<and> call_auth c = None
         \<and> map_of (call_headers c) ''Authorization'' = Some (''Bearer '' @ token self)
         \<and> request lib self endpoint meth params w =
             (case perform lib c w of
                (Inl e, w') \<Rightarrow> (Inl e, self, w')
              | (Inr response, w') \<Rightarrow> (json lib response, self, w'))))
   \<and> (request_call lib self endpoint meth params = Inr c' \<longrightarrow>
        (call_auth c' \<noteq> None) \<noteq> (''Authorization'' \<in> fst ` set (call_headers c')))"
proof (intro conjI impI)
  assume "username self = Some u \<and> u \<noteq> [] \<and> token self \<noteq> [] \<and> CHR '':'' \<notin> set u"
  then have a: "request_auth self = Inr (Some (BasicAuth u (token self)))"
    by (simp add: request_auth_basic)
  define c where "c = \<lparr>call_requester = getattr (session_attrs lib) (str_lower lib meth) (VerbMethod GET),
      call_url = truediv (api_url self) (lstrip endpoint ''/''),
      call_headers = headers (generate_user_agent lib) self False,
      call_auth = Some (BasicAuth u (token self)), call_params = params\<rparr>"
  have rc: "request_call lib self endpoint meth params = Inr c"
    by (simp add: request_call_unfold a c_def bool_auth_def)
  have "call_auth c = Some (BasicAuth u (token self))"
    by (simp add: c_def)
  moreover have "''Authorization'' \<notin> fst ` set (call_headers c)"
    by (simp add: c_def headers_Authorization_key)
  ultimately show "\<exists>c. request_call lib self endpoint meth params = Inr c
      \<and> call_auth c = Some (BasicAuth u (token self))
      \<and> ''Authorization'' \<notin> fst ` set (call_headers c)
      \<and> request lib self endpoint meth params w =
          (case perform lib c w of
             (Inl e, w') \<Rightarrow> (Inl e, self, w')
           | (Inr response, w') \<Rightarrow> (json lib response, self, w'))"
    using rc request_sends [OF rc, of w] by blast
next
  assume h: "username self = Some u \<and> u \<noteq> [] \<and> token self \<noteq> [] \<and> CHR '':'' \<in> set u"
  then have "request_auth self = Inl ValueError"
    by (simp add: request_auth_colon)
  then show rc: "request_call lib self endpoint meth params = Inl ValueError"
    by (simp add: request_call_unfold)
  then show "request lib self endpoint meth params w = (Inl ValueError, self, w)"
    by (rule request_raises)
next
  assume "\<not> (\<exists>v. username self = Some v \<and> v \<noteq> [] \<and> token self \<noteq> [])"
  then have a: "request_auth self = Inr None"
    by (rule request_auth_bearer)
  define c where "c = \<lparr>call_requester = getattr (session_attrs lib) (str_lower lib meth) (VerbMethod GET),
      call_url = truediv (api_url self) (lstrip endpoint ''/''),
      call_headers = headers (generate_user_agent lib) self True,
      call_auth = None, call_params = params\<rparr>"
  have rc: "request_call lib self endpoint meth params = Inr c"
    by (simp add: request_call_unfold a c_def bool_auth_def)
  have "call_auth c = None"
    by (simp add: c_def)
  moreover have "map_of (call_headers c) ''Authorization'' = Some (''Bearer '' @ token self)"
    by (simp add: c_def headers_Authorization_value)
  ultimately show "\<exists>c. request_call lib self endpoint meth params = Inr c
      \<and> call_auth c = None
      \<and> map_of (call_headers c) ''Authorization'' = Some (''Bearer '' @ token self)
      \<and> request lib self endpoint meth params w =
          (case perform lib c w of
             (Inl e, w') \<Rightarrow> (Inl e, self, w')
           | (Inr response, w') \<Rightarrow> (json lib response, self, w'))"
    using rc request_sends [OF rc, of w] by blast
next
  assume "request_call lib self endpoint meth params = Inr c'"
  then show "(call_auth c' \<noteq> None) \<noteq> (''Authorization'' \<in> fst ` set (call_headers c'))"
    by (rule request_call_one_mechanism)
qed

lemma request_call_alice:
  "request_call echo_lib alice ''users/1'' ''GET'' None = Inr alice_call"
  by (simp add: request_call_def request_auth_def BasicAuth_new_def bool_auth_def
      headers_def Let_def echo_lib_def mock_lib_def getattr_def ClientSession_attrs_def
      ascii_lower_def ascii_lower_char_def alice_def alice_call_def api_url_def api_prefix_def
      format_field_def truediv_def rstrip_def lstrip_def)

lemma request_call_anonymous:
  "request_call (mock_lib respond decode) anonymous ''users/1'' ''GET'' None = Inr anonymous_call"
  by (simp add: request_call_def request_auth_def bool_auth_def
      headers_def Let_def mock_lib_def getattr_def ClientSession_attrs_def
      ascii_lower_def ascii_lower_char_def anonymous_def anonymous_call_def api_url_def
      api_prefix_def format_field_def truediv_def rstrip_def lstrip_def)

lemma perform_mock_lib:
  "perform (mock_lib respond decode) c w =
     (case call_requester c of
        OtherAttribute a \<Rightarrow> (Inl TypeError, w)
      | VerbMethod v \<Rightarrow> (respond c w, w @ [c]))"
  by (simp add: mock_lib_def)

lemma json_mock_lib: "json (mock_lib respond decode) = decode"
  by (simp add: mock_lib_def)

lemma call_requester_anonymous_call: "call_requester anonymous_call = VerbMethod GET"
  by (simp add: anonymous_call_def)

lemma request_mock_lib_anonymous:
  "request (mock_lib respond decode) anonymous ''users/1'' ''GET'' None w =
     (case respond anonymous_call w of
        Inl e \<Rightarrow> (Inl e, anonymous, w @ [anonymous_call])
      | Inr response \<Rightarrow> (decode response, anonymous, w @ [anonymous_call]))"
  by (simp add: request_def request_call_anonymous perform_mock_lib json_mock_lib
      call_requester_anonymous_call split: sum.splits)

theorem request_auth_mode_witness:
  "request echo_lib alice ''users/1'' ''GET'' None [] = (Inr ''[1, 2]'', alice, [alice_call])
   \<and> call_auth alice_call = Some (BasicAuth ''alice'' ''T'')
   \<and> ''Authorization'' \<notin> fst ` set (call_headers alice_call)
   \<and> request echo_lib anonymous ''users/1'' ''GET'' None []
     = (Inr ''[1, 2]'', anonymous, [anonymous_call])
   \<and> call_auth anonymous_call = None
   \<and> map_of (call_headers anonymous_call) ''Authorization'' = Some ''Bearer T''
   \<and> request echo_lib colon ''users/1'' ''GET'' None [] = (Inl ValueError, colon, [])"
proof -
  have ha: "username alice = Some ''alice'' \<and> ''alice'' \<noteq> [] \<and> token alice \<noteq> []
      \<and> CHR '':'' \<notin> set ''alice''"
    by (simp add: alice_def)
  have hc: "username colon = Some ''a:b'' \<and> ''a:b'' \<noteq> [] \<and> token colon \<noteq> []
      \<and> CHR '':'' \<in> set ''a:b''"
    by (simp add: colon_def)
  have hn: "\<not> (\<exists>v. username anonymous = Some v \<and> v \<noteq> [] \<and> token anonymous \<noteq> [])"
    by (simp add: anonymous_def)
  have pa: "perform echo_lib alice_call [] = (Inr (200, ''[1, 2]''), [alice_call])"
    by (simp add: echo_lib_def mock_lib_def alice_call_def)
  have pn: "perform echo_lib anonymous_call [] = (Inr (200, ''[1, 2]''), [anonymous_call])"
    by (simp add: echo_lib_def mock_lib_def anonymous_call_def)
  have j: "json echo_lib (200, ''[1, 2]'') = Inr ''[1, 2]''"
    by (simp add: echo_lib_def mock_lib_def)
  have ta: "token alice = ''T''" and tn: "token anonymous = ''T''"
    by (simp_all add: alice_def anonymous_def)
  from request_auth_mode [where self = alice and u = "''alice''" and lib = echo_lib
      and endpoint = "''users/1''" and meth = "''GET''" and params = None and w = "[]"] ha
  obtain c where c: "request_call echo_lib alice ''users/1'' ''GET'' None = Inr c"
    and ca: "call_auth c = Some (BasicAuth ''alice'' (token alice))"
    and ch: "''Authorization'' \<notin> fst ` set (call_headers c)"
    and cr: "request echo_lib alice ''users/1'' ''GET'' None [] =
        (case perform echo_lib c [] of
           (Inl e, w') \<Rightarrow> (Inl e, alice, w')
         | (Inr response, w') \<Rightarrow> (json echo_lib response, alice, w'))"
    by blast
  from c have ceq: "c = alice_call"
    by (simp add: request_call_alice)
  from request_auth_mode [where self = anonymous and u = "''alice''" and lib = echo_lib
      and endpoint = "''users/1''" and meth = "''GET''" and params = None and w = "[]"] hn
  obtain d where d: "request_call echo_lib anonymous ''users/1'' ''GET'' None = Inr d"
    and da: "call_auth d = None"
    and dh: "map_of (call_headers d) ''Authorization'' = Some (''Bearer '' @ token anonymous)"
    and dr: "request echo_lib anonymous ''users/1'' ''GET'' None [] =
        (case perform echo_lib d [] of
           (Inl e, w') \<Rightarrow> (Inl e, anonymous, w')
         | (Inr response, w') \<Rightarrow> (json echo_lib response, anonymous, w'))"
    by blast
  from d have deq: "d = anonymous_call"
    by (simp add: echo_lib_def request_call_anonymous)
  from request_auth_mode [where self = colon and u = "''a:b''" and lib = echo_lib
      and endpoint = "''users/1''" and meth = "''GET''" and params = None and w = "[]"] hc
  have e: "request echo_lib colon ''users/1'' ''GET'' None [] = (Inl ValueError, colon, [])"
    by blast
  from ca ch cr da dh dr e show ?thesis
    by (simp add: ceq deq pa pn j ta tn)
qed

text \<open>
  The claim C2 as it is written fails on a username with a colon: with username
  \<^verbatim>\<open>a:b\<close> and token \<^verbatim>\<open>T\<close>, both non-empty, no basic authentication is used and no
  bearer header is sent, since \<^verbatim>\<open>request\<close> raises \<^verbatim>\<open>ValueError\<close> and nothing goes out.
\<close>

theorem request_colon_login:
  "request_call echo_lib colon ''users/1'' ''GET'' None = Inl ValueError
   \<and> request echo_lib colon ''users/1'' ''GET'' None [] = (Inl ValueError, colon, [])"
  by (simp add: request_def request_call_def request_auth_def BasicAuth_new_def Let_def colon_def)



section \<open>Headers\<close>

text \<open>
  C8. \<^verbatim>\<open>headers(bearer=True)\<close> has exactly the keys \<^verbatim>\<open>Content-Type\<close>, \<^verbatim>\<open>Accept\<close>,
  \<^verbatim>\<open>User-Agent\<close> and \<^verbatim>\<open>Authorization\<close>, \<^verbatim>\<open>headers(bearer=False)\<close> the first three.
  The two content entries are \<^verbatim>\<open>application/json\<close>, the agent entry is the generated
  string (non-empty when the generator's string is), and the authorization entry is
  \<^verbatim>\<open>Bearer\<close>, a space and the token.
\<close>

theorem headers_keys:
  "map fst (headers agent self True)
     = [''Content-Type'', ''Accept'', ''User-Agent'', ''Authorization'']
   \<and> map fst (headers agent self False) = [''Content-Type'', ''Accept'', ''User-Agent'']
   \<and> distinct (map fst (headers agent self bearer))
   \<and> dom (map_of (headers agent self True))
     = {''Content-Type'', ''Accept'', ''User-Agent'', ''Authorization''}
   \<and> dom (map_of (headers agent self False))
     = {''Content-Type'', ''Accept'', ''User-Agent''}
   \<and> map_of (headers agent self bearer) ''Content-Type'' = Some ''application/json''
   \<and> map_of (headers agent self bearer) ''Accept'' = Some ''application/json''
   \<and> map_of (headers agent self bearer) ''User-Agent'' = Some agent
   \<and> (agent \<noteq> [] \<longrightarrow>
        (\<exists>v. map_of (headers agent self bearer) ''User-Agent'' = Some v \<and> v \<noteq> []))
   \<and> map_of (headers agent self True) ''Authorization'' = Some (''Bearer '' @ token self)
   \<and> map_of (headers agent self False) ''Authorization'' = None"
proof (intro conjI impI)
  show "dom (map_of (headers agent self True))
      = {''Content-Type'', ''Accept'', ''User-Agent'', ''Authorization''}"
    by (auto simp: headers_def dom_map_of_conv_image_fst)
  show "dom (map_of (headers agent self False))
      = {''Content-Type'', ''Accept'', ''User-Agent''}"
    by (auto simp: headers_def dom_map_of_conv_image_fst)
qed (simp_all add: headers_def)

theorem headers_keys_witness:
  "map fst (headers ''Mozilla/5.0'' anonymous True)
     = [''Content-Type'', ''Accept'', ''User-Agent'', ''Authorization'']
   \<and> (\<exists>v. map_of (headers ''Mozilla/5.0'' anonymous True) ''User-Agent'' = Some v \<and> v \<noteq> [])
   \<and> map_of (headers ''Mozilla/5.0'' anonymous True) ''Authorization'' = Some ''Bearer T''"
  using headers_keys [where agent = "''Mozilla/5.0''" and self = anonymous and bearer = True]
  by (simp add: anonymous_def)

section \<open>Construction\<close>

lemma RequestManager_init_succeeds: "RequestManager_init auth = Inr auth"
  by (simp add: RequestManager_init_def AuthManager_init_def)

text \<open>
  C4, as the code has it. A token that is left out or \<^verbatim>\<open>None\<close> makes the construction
  fail with the validation error, and the construction touches no world; every string,
  the empty one included, is accepted as the token, and a constructed manager holds the
  string that was passed.
\<close>

theorem AuthManager_init_token:
  "AuthManager_init u Omitted b = Inl ValidationError
   \<and> AuthManager_init u (Passed None) b = Inl ValidationError
   \<and> (\<exists>a. AuthManager_init u (Passed (Some t)) b = Inr a \<and> token a = t)
   \<and> (AuthManager_init u targ b = Inr self \<longrightarrow> targ = Passed (Some (token self)))"
proof (intro conjI impI)
  assume ok: "AuthManager_init u targ b = Inr self"
  show "targ = Passed (Some (token self))"
  proof (cases targ)
    case Omitted
    with ok show ?thesis by (simp add: AuthManager_init_def)
  next
    case (Passed v)
    with ok show ?thesis
      by (cases v) (auto simp: AuthManager_init_def Let_def)
  qed
qed (simp_all add: AuthManager_init_def Let_def)

theorem AuthManager_init_token_witness:
  "AuthManager_init Omitted Omitted Omitted = Inl ValidationError
   \<and> AuthManager_init Omitted (Passed None) Omitted = Inl ValidationError
   \<and> AuthManager_init Omitted (Passed (Some ''T'')) Omitted = Inr anonymous
   \<and> Passed (Some ''T'') = Passed (Some (token anonymous))"
proof -
  have ok: "AuthManager_init Omitted (Passed (Some ''T'')) Omitted = Inr anonymous"
    by (simp add: AuthManager_init_def anonymous_def)
  from AuthManager_init_token [where u = Omitted and b = Omitted and t = "''T''"
      and targ = "Passed (Some ''T'')" and self = anonymous] ok
  show ?thesis by blast
qed

text \<open>
  The claim C4 as it is written fails on the empty string: the constructor accepts it,
  and the manager it builds has an empty token.
\<close>

theorem AuthManager_init_empty_token:
  "AuthManager_init Omitted (Passed (Some [])) Omitted
     = Inr \<lparr>username = None, token = [], base_url = Some ''https://api.url''\<rparr>"
  by (simp add: AuthManager_init_def)

section \<open>Method dispatch\<close>

lemma request_method_fallback:
  assumes "request_call lib self endpoint meth params = Inr c"
    and "session_attrs lib (str_lower lib meth) = None"
  shows "call_requester c = VerbMethod GET"
  using call_requester_request_call [OF assms(1)] assms(2) by (simp add: getattr_def)

text \<open>
  C5. \<^verbatim>\<open>getattr(session, method.lower(), session.get)\<close> falls back to \<open>GET\<close> only when
  the session has no attribute of that name. The method string \<^verbatim>\<open>close\<close> (in any case) is
  no HTTP verb, yet it selects \<^verbatim>\<open>session.close\<close>: invoking it raises \<^verbatim>\<open>TypeError\<close>, and
  no \<open>GET\<close> request goes out, where \<^verbatim>\<open>XPATCH\<close> does send a \<open>GET\<close>.
\<close>

theorem request_method_close:
  "(\<exists>c. request_call echo_lib anonymous ''users/1'' ''close'' None = Inr c
      \<and> call_requester c = OtherAttribute ''close'')
   \<and> request echo_lib anonymous ''users/1'' ''close'' None [] = (Inl TypeError, anonymous, [])
   \<and> request echo_lib anonymous ''users/1'' ''CLOSE'' None [] = (Inl TypeError, anonymous, [])
   \<and> map call_requester (snd (snd (request echo_lib anonymous ''users/1'' ''XPATCH'' None [])))
     = [VerbMethod GET]"
  by (simp add: request_def request_call_def request_auth_def Let_def echo_lib_def mock_lib_def
      getattr_def ClientSession_attrs_def ascii_lower_def ascii_lower_char_def anonymous_def)

section \<open>Failures and the frame of \<^verbatim>\<open>request\<close>\<close>

text \<open>
  C6, as the code has it. The exception of line 74, an exception raised while the call is
  performed and an exception raised by the decoder each leave \<^verbatim>\<open>request\<close> as they were
  raised, and a response that is not raised is decoded, whatever its status. The world
  after \<^verbatim>\<open>request\<close> is the world after the one call that was performed (nothing is sent
  a second time), and the result is a failure or a value and never both.
\<close>

theorem request_failure_propagates:
  "(request_call lib self endpoint meth params = Inl e \<longrightarrow>
      request lib self endpoint meth params w = (Inl e, self, w))
   \<and> (request_call lib self endpoint meth params = Inr c \<and> perform lib c w = (Inl e, w') \<longrightarrow>
      request lib self endpoint meth params w = (Inl e, self, w'))
   \<and> (request_call lib self endpoint meth params = Inr c
        \<and> perform lib c w = (Inr response, w') \<and> json lib response = Inl e \<longrightarrow>
      request lib self endpoint meth params w = (Inl e, self, w'))
   \<and> (request_call lib self endpoint meth params = Inr c
        \<and> perform lib c w = (Inr response, w') \<and> json lib response = Inr v \<longrightarrow>
      request lib self endpoint meth params w = (Inr v, self, w'))
   \<and> (request_call lib self endpoint meth params = Inr c \<longrightarrow>
      snd (snd (request lib self endpoint meth params w)) = snd (perform lib c w))
   \<and> ((\<exists>x. fst (request lib self endpoint meth params w) = Inl x)
        \<noteq> (\<exists>y. fst (request lib self endpoint meth params w) = Inr y))"
proof (intro conjI impI)
  show "snd (snd (request lib self endpoint meth params w)) = snd (perform lib c w)"
    if "request_call lib self endpoint meth params = Inr c"
    using that by (simp add: request_def split: prod.splits sum.splits)
  show "(\<exists>x. fst (request lib self endpoint meth params w) = Inl x)
      \<noteq> (\<exists>y. fst (request lib self endpoint meth params w) = Inr y)"
    by (cases "fst (request lib self endpoint meth params w)") simp_all
qed (auto simp: request_def)

theorem request_failure_propagates_witness:
  "request flaky_lib anonymous ''users/1'' ''GET'' None []
     = (Inl ClientConnectionError, anonymous, [anonymous_call])
   \<and> fst (perform flaky_lib anonymous_call [anonymous_call]) = Inr (200, ''[1, 2]'')
   \<and> request garbled_lib anonymous ''users/1'' ''GET'' None []
     = (Inl JSONDecodeError, anonymous, [anonymous_call])
   \<and> request echo_lib anonymous ''users/1'' ''GET'' None []
     = (Inr ''[1, 2]'', anonymous, [anonymous_call])
   \<and> request echo_lib colon ''users/1'' ''GET'' None [] = (Inl ValueError, colon, [])"
proof -
  have g: "call_requester anonymous_call = VerbMethod GET"
    by (simp add: anonymous_call_def)
  have rf: "request_call flaky_lib anonymous ''users/1'' ''GET'' None = Inr anonymous_call"
    and rg: "request_call garbled_lib anonymous ''users/1'' ''GET'' None = Inr anonymous_call"
    and re: "request_call echo_lib anonymous ''users/1'' ''GET'' None = Inr anonymous_call"
    by (simp_all add: flaky_lib_def garbled_lib_def echo_lib_def request_call_anonymous)
  have rc: "request_call echo_lib colon ''users/1'' ''GET'' None = Inl ValueError"
    by (simp add: request_call_def request_auth_def BasicAuth_new_def Let_def colon_def)
  have pf: "perform flaky_lib anonymous_call [] = (Inl ClientConnectionError, [anonymous_call])"
    and pf2: "fst (perform flaky_lib anonymous_call [anonymous_call]) = Inr (200, ''[1, 2]'')"
    and pg: "perform garbled_lib anonymous_call [] = (Inr (200, ''<html>''), [anonymous_call])"
    and pe: "perform echo_lib anonymous_call [] = (Inr (200, ''[1, 2]''), [anonymous_call])"
    by (simp_all add: flaky_lib_def garbled_lib_def echo_lib_def perform_mock_lib g)
  have jg: "json garbled_lib (200, ''<html>'') = Inl JSONDecodeError"
    and je: "json echo_lib (200, ''[1, 2]'') = Inr ''[1, 2]''"
    by (simp_all add: garbled_lib_def echo_lib_def mock_lib_def)
  from request_failure_propagates [where lib = flaky_lib and self = anonymous
      and endpoint = "''users/1''" and meth = "''GET''" and params = None and w = "[]"
      and c = anonymous_call and e = ClientConnectionError and w' = "[anonymous_call]"] rf pf
  have a: "request flaky_lib anonymous ''users/1'' ''GET'' None []
      = (Inl ClientConnectionError, anonymous, [anonymous_call])"
    by blast
  from request_failure_propagates [where lib = garbled_lib and self = anonymous
      and endpoint = "''users/1''" and meth = "''GET''" and params = None and w = "[]"
      and c = anonymous_call and e = JSONDecodeError and response = "(200, ''<html>'')"
      and w' = "[anonymous_call]"] rg pg jg
  have b: "request garbled_lib anonymous ''users/1'' ''GET'' None []
      = (Inl JSONDecodeError, anonymous, [anonymous_call])"
    by blast
  from request_failure_propagates [where lib = echo_lib and self = anonymous
      and endpoint = "''users/1''" and meth = "''GET''" and params = None and w = "[]"
      and c = anonymous_call and v = "''[1, 2]''" and response = "(200, ''[1, 2]'')"
      and w' = "[anonymous_call]"] re pe je
  have c: "request echo_lib anonymous ''users/1'' ''GET'' None []
      = (Inr ''[1, 2]'', anonymous, [anonymous_call])"
    by blast
  from request_failure_propagates [where lib = echo_lib and self = colon
      and endpoint = "''users/1''" and meth = "''GET''" and params = None and w = "[]"
      and e = ValueError] rc
  have d: "request echo_lib colon ''users/1'' ''GET'' None [] = (Inl ValueError, colon, [])"
    by blast
  from a pf2 b c d show ?thesis by blast
qed

text \<open>
  The claim C6 as it is written fails: nothing wraps the failures into one generic error.
  A refused connection reaches the caller as \<^verbatim>\<open>ClientConnectionError\<close> and a body that
  is no JSON as \<^verbatim>\<open>JSONDecodeError\<close>, two different exceptions, and an error response
  that the transport does not raise (status 404 with a JSON body) is no failure at all:
  its decoded body is returned.
\<close>

theorem request_failures_differ:
  "fst (request flaky_lib anonymous ''users/1'' ''GET'' None []) = Inl ClientConnectionError
   \<and> fst (request garbled_lib anonymous ''users/1'' ''GET'' None []) = Inl JSONDecodeError
   \<and> ClientConnectionError \<noteq> JSONDecodeError
   \<and> fst (request not_found_lib anonymous ''users/1'' ''GET'' None []) = Inr ''[]''"
  by (simp add: flaky_lib_def garbled_lib_def not_found_lib_def request_mock_lib_anonymous)

text \<open>
  C10. \<^verbatim>\<open>request\<close> leaves the manager as it found it: the manager after the call, and so
  each of its fields \<^verbatim>\<open>username\<close>, \<^verbatim>\<open>token\<close> and \<^verbatim>\<open>base_url\<close>, is the manager before the
  call, whatever the transport and the decoder do.
\<close>

theorem request_frame:
  "fst (snd (request lib self endpoint meth params w)) = self
   \<and> username (fst (snd (request lib self endpoint meth params w))) = username self
   \<and> token (fst (snd (request lib self endpoint meth params w))) = token self
   \<and> base_url (fst (snd (request lib self endpoint meth params w))) = base_url self"
proof -
  have "fst (snd (request lib self endpoint meth params w)) = self"
    by (simp add: request_def split: prod.splits sum.splits)
  then show ?thesis by simp
qed

theorem request_frame_witness:
  "fst (snd (request flaky_lib alice ''users/1'' ''GET'' None [])) = alice
   \<and> fst (snd (request echo_lib alice ''users/1'' ''GET'' None [])) = alice"
  using request_frame [where lib = flaky_lib and self = alice and endpoint = "''users/1''"
      and meth = "''GET''" and params = None and w = "[]"]
    request_frame [where lib = echo_lib and self = alice and endpoint = "''users/1''"
      and meth = "''GET''" and params = None and w = "[]"]
  by blast

end
